theory Spec2Isabelle
  imports Main "HOL-Library.AList"
begin

section \<open>Strings, exceptions and JSON values\<close>

text \<open>
  Python strings are modelled as \<open>string\<close>; a \<open>char\<close> stands for one code point of
  the Latin-1 range, and the character classes below are Python's \<open>str.isalnum\<close> and
  \<open>str.isspace\<close> on that range.
\<close>

definition isalnum :: "char \<Rightarrow> bool" where
  "isalnum c =
     (let n = (of_char c :: nat) in
        (48 \<le> n \<and> n \<le> 57) \<or> (65 \<le> n \<and> n \<le> 90) \<or> (97 \<le> n \<and> n \<le> 122) \<or>
        n = 170 \<or> n = 178 \<or> n = 179 \<or> n = 181 \<or> n = 185 \<or> n = 186 \<or>
        (188 \<le> n \<and> n \<le> 190) \<or> (192 \<le> n \<and> n \<le> 214) \<or>
        (216 \<le> n \<and> n \<le> 246) \<or> (248 \<le> n \<and> n \<le> 255))"

definition isspace :: "char \<Rightarrow> bool" where
  "isspace c =
     (let n = (of_char c :: nat) in
        (9 \<le> n \<and> n \<le> 13) \<or> (28 \<le> n \<and> n \<le> 32) \<or> n = 133 \<or> n = 160)"

text \<open>\<open>s.strip(chars)\<close> and \<open>s.strip()\<close>.\<close>

definition strip_chars :: "string \<Rightarrow> string \<Rightarrow> string" where
  "strip_chars cs s =
     rev (dropWhile (\<lambda>c. c \<in> set cs) (rev (dropWhile (\<lambda>c. c \<in> set cs) s)))"

definition strip :: "string \<Rightarrow> string" where
  "strip s = rev (dropWhile isspace (rev (dropWhile isspace s)))"

text \<open>\<open>str(n)\<close> for an integer: decimal digits, with a leading minus sign.\<close>

definition digit_char :: "nat \<Rightarrow> char" where
  "digit_char d =
     (if d = 0 then CHR ''0'' else if d = 1 then CHR ''1'' else if d = 2 then CHR ''2''
      else if d = 3 then CHR ''3'' else if d = 4 then CHR ''4'' else if d = 5 then CHR ''5''
      else if d = 6 then CHR ''6'' else if d = 7 then CHR ''7'' else if d = 8 then CHR ''8''
      else CHR ''9'')"

fun str_nat :: "nat \<Rightarrow> string" where
  "str_nat n = (if n < 10 then [digit_char n] else str_nat (n div 10) @ [digit_char (n mod 10)])"

declare str_nat.simps [simp del]

definition str_int :: "int \<Rightarrow> string" where
  "str_int i = (if i < 0 then CHR ''-'' # str_nat (nat (- i)) else str_nat (nat i))"

text \<open>
  An exception is its class and the text \<open>str(e)\<close>. A handler that lets an exception
  escape returns \<open>Inl\<close>.
\<close>

datatype exn_kind =
  TypeError | KeyError | IndexError | IOError | ValueError | ImportError | OtherError

type_synonym exn = "exn_kind \<times> string"

text \<open>
  Values of JSON documents and of Chroma metadata: \<open>None\<close>, booleans, integers and
  strings. Floating-point values do not occur in what the handlers write and are left out.
\<close>

datatype jval = JNull | JBool bool | JInt int | JStr string

text \<open>Python's truth value of a looked-up entry (\<open>if source:\<close>); a missing key is \<open>None\<close>.\<close>

fun truthy :: "jval option \<Rightarrow> bool" where
  "truthy None = False"
| "truthy (Some JNull) = False"
| "truthy (Some (JBool b)) = b"
| "truthy (Some (JInt i)) = (i \<noteq> 0)"
| "truthy (Some (JStr s)) = (s \<noteq> [])"

section \<open>Dataset names\<close>

text \<open>
  The sanitising block of \<open>create_dataset\<close> (lines 489-500), repeated verbatim in
  \<open>upload_documents\<close> (lines 800-811). The argument \<open>now\<close> is \<open>int(time.time())\<close>.
  Indexing an empty string raises IndexError.
\<close>

definition sanitized_name :: "string \<Rightarrow> int \<Rightarrow> exn + string" where
  "sanitized_name dataset_name now =
     (let s0 = map (\<lambda>c. if isalnum c \<or> c \<in> set ''-_'' then c else CHR ''-'') dataset_name;
          s1 = strip_chars ''-_'' s0;
          s2 = (if length s1 > 60 then take 60 s1 else s1);
          s3 = (if length s2 < 3 then ''dataset-'' @ str_int now else s2)
      in case s3 of
           [] \<Rightarrow> Inl (IndexError, ''string index out of range'')
         | c # rest \<Rightarrow>
             (let s4 = (if \<not> isalnum c then CHR ''x'' # rest else s3)
              in if \<not> isalnum (last s4) then Inr (butlast s4 @ ''x'') else Inr s4))"

definition name_char_ok :: "char \<Rightarrow> bool" where
  "name_char_ok c = (isalnum c \<or> c = CHR ''-'' \<or> c = CHR ''_'')"

definition valid_dataset_name :: "string \<Rightarrow> bool" where
  "valid_dataset_name s =
     (list_all name_char_ok s \<and> 3 \<le> length s \<and> length s \<le> 60 \<and>
      (case s of [] \<Rightarrow> False | c # _ \<Rightarrow> isalnum c \<and> isalnum (last s)))"

section \<open>PDF text extraction\<close>

text \<open>
  \<open>robust_extract_text_from_pdf\<close> (lines 194-269) calls three external extractors. What
  they do on a given file is the file's \<open>pdf_file\<close> record: each call either raises
  (\<open>Inl\<close>) or returns. An element of \<open>partition_pdf\<close> is its \<open>text\<close> attribute, \<open>None\<close>
  when the element has none; a page of PyPDF2 yields \<open>extract_text()\<close>, which may raise
  or return \<open>None\<close>; \<open>ocr_images\<close> stands for the import of \<open>pdf2image\<close> together with
  \<open>convert_from_path\<close>, and each image for \<open>pytesseract.image_to_string\<close>. The model covers
  exceptions of the \<open>Exception\<close> hierarchy, the ones \<open>except Exception\<close> catches.
\<close>

record pdf_file =
  partition_hi_res :: "exn + string option list"
  partition_default :: "exn + string option list"
  pypdf_pages :: "exn + (exn + string option) list"
  ocr_images :: "exn + (exn + string) list"

text \<open>Lines 204-208: the inner \<open>try\<close> retries without \<open>strategy\<close> on a TypeError only.\<close>

definition partition_elements :: "pdf_file \<Rightarrow> exn + string option list" where
  "partition_elements f =
     (case partition_hi_res f of
        Inl e \<Rightarrow> (if fst e = TypeError then partition_default f else Inl e)
      | Inr elements \<Rightarrow> Inr elements)"

text \<open>
  Lines 210-213. The loops return the exception that stopped them, if any, together with
  the variables as they were at that moment: \<open>extraction_success\<close> is a variable of the
  whole function and keeps a value set before the exception.
\<close>

fun element_loop :: "string option list \<Rightarrow> string list \<Rightarrow> bool \<Rightarrow> string list \<times> bool" where
  "element_loop [] all_text extraction_success = (all_text, extraction_success)"
| "element_loop (None # es) all_text extraction_success =
     element_loop es all_text extraction_success"
| "element_loop (Some t # es) all_text extraction_success =
     (if t \<noteq> [] then element_loop es (all_text @ [t]) True
      else element_loop es all_text extraction_success)"

fun page_loop ::
  "nat \<Rightarrow> (exn + string option) list \<Rightarrow> string list \<Rightarrow> bool \<Rightarrow> exn option \<times> string list \<times> bool"
where
  "page_loop page_num [] pdf_text extraction_success = (None, pdf_text, extraction_success)"
| "page_loop page_num (Inl e # ps) pdf_text extraction_success =
     (Some e, pdf_text, extraction_success)"
| "page_loop page_num (Inr None # ps) pdf_text extraction_success =
     page_loop (Suc page_num) ps pdf_text extraction_success"
| "page_loop page_num (Inr (Some t) # ps) pdf_text extraction_success =
     (if t \<noteq> [] \<and> strip t \<noteq> []
      then page_loop (Suc page_num) ps
             (pdf_text @ [''Page '' @ str_nat (page_num + 1) @ '': '' @ t]) True
      else page_loop (Suc page_num) ps pdf_text extraction_success)"

fun ocr_loop ::
  "nat \<Rightarrow> (exn + string) list \<Rightarrow> string list \<Rightarrow> bool \<Rightarrow> exn option \<times> string list \<times> bool"
where
  "ocr_loop i [] ocr_text extraction_success = (None, ocr_text, extraction_success)"
| "ocr_loop i (Inl e # ims) ocr_text extraction_success = (Some e, ocr_text, extraction_success)"
| "ocr_loop i (Inr t # ims) ocr_text extraction_success =
     (if t \<noteq> [] \<and> strip t \<noteq> []
      then ocr_loop (Suc i) ims (ocr_text @ [''Page '' @ str_nat (i + 1) @ '' (OCR): '' @ t]) True
      else ocr_loop (Suc i) ims ocr_text extraction_success)"

text \<open>METHOD 1, lines 201-215: any exception is caught and printed.\<close>

definition method_unstructured :: "pdf_file \<Rightarrow> string list \<times> bool" where
  "method_unstructured f =
     (case partition_elements f of
        Inl e \<Rightarrow> ([], False)
      | Inr elements \<Rightarrow> element_loop elements [] False)"

text \<open>METHOD 2, lines 223-241: \<open>pdf_text\<close> is added only when the loop ran to its end.\<close>

definition method_pypdf :: "pdf_file \<Rightarrow> string list \<times> bool \<Rightarrow> string list \<times> bool" where
  "method_pypdf f st =
     (case st of (all_text, extraction_success) \<Rightarrow>
        (case pypdf_pages f of
           Inl e \<Rightarrow> (all_text, extraction_success)
         | Inr pages \<Rightarrow>
             (case page_loop 0 pages [] extraction_success of
                (Some e, pdf_text, success) \<Rightarrow> (all_text, success)
              | (None, pdf_text, success) \<Rightarrow>
                  (if success then (all_text @ pdf_text, success) else (all_text, success)))))"

text \<open>METHOD 3, lines 244-262.\<close>

definition method_ocr :: "bool \<Rightarrow> pdf_file \<Rightarrow> string list \<times> bool \<Rightarrow> string list \<times> bool" where
  "method_ocr PYTESSERACT_AVAILABLE f st =
     (case st of (all_text, extraction_success) \<Rightarrow>
        (if \<not> extraction_success \<and> PYTESSERACT_AVAILABLE then
           (case ocr_images f of
              Inl e \<Rightarrow> (all_text, extraction_success)
            | Inr images \<Rightarrow>
                (case ocr_loop 0 images [] extraction_success of
                   (Some e, ocr_text, success) \<Rightarrow> (all_text, success)
                 | (None, ocr_text, success) \<Rightarrow>
                     (if success then (all_text @ ocr_text, success) else (all_text, success))))
         else (all_text, extraction_success)))"

definition robust_extract_text_from_pdf :: "bool \<Rightarrow> pdf_file \<Rightarrow> exn + string list" where
  "robust_extract_text_from_pdf PYTESSERACT_AVAILABLE f =
     (case method_unstructured f of (all_text1, success1) \<Rightarrow>
        (if success1 \<and> length (strip (concat all_text1)) > 100 then Inr all_text1
         else
           (case method_ocr PYTESSERACT_AVAILABLE f (method_pypdf f (all_text1, success1)) of
              (all_text, extraction_success) \<Rightarrow>
                (if \<not> extraction_success \<or> all_text = [] then Inr [] else Inr all_text))))"

text \<open>
  A method extracts no text when it raises before any text was seen or when every text
  it sees is empty or blank.
\<close>

definition no_element_text :: "exn + string option list \<Rightarrow> bool" where
  "no_element_text r =
     (case r of Inl e \<Rightarrow> True
      | Inr elements \<Rightarrow> list_all (\<lambda>e. e = None \<or> e = Some []) elements)"

definition no_page_text :: "exn + (exn + string option) list \<Rightarrow> bool" where
  "no_page_text r =
     (case r of Inl e \<Rightarrow> True
      | Inr pages \<Rightarrow>
          list_all (\<lambda>p. case p of Inr (Some t) \<Rightarrow> strip t = [] | _ \<Rightarrow> True) pages)"

definition no_ocr_text :: "exn + (exn + string) list \<Rightarrow> bool" where
  "no_ocr_text r =
     (case r of Inl e \<Rightarrow> True
      | Inr images \<Rightarrow> list_all (\<lambda>p. case p of Inr t \<Rightarrow> strip t = [] | _ \<Rightarrow> True) images)"

definition all_methods_fail :: "bool \<Rightarrow> pdf_file \<Rightarrow> bool" where
  "all_methods_fail PYTESSERACT_AVAILABLE f =
     (no_element_text (partition_elements f) \<and> no_page_text (pypdf_pages f) \<and>
      (\<not> PYTESSERACT_AVAILABLE \<or> no_ocr_text (ocr_images f)))"

text \<open>A file on which every extractor fails or finds blank text only.\<close>

definition unreadable_pdf :: pdf_file where
  "unreadable_pdf =
     \<lparr>partition_hi_res = Inl (TypeError, ''unexpected keyword argument''),
      partition_default = Inr [None, Some ''''],
      pypdf_pages = Inr [Inr (Some ''  ''), Inl (OtherError, ''bad page''), Inr None],
      ocr_images = Inl (ImportError, ''No module named pdf2image'')\<rparr>"

section \<open>Chunks and the pending lists of an ingestion\<close>

type_synonym meta = "(string \<times> jval) list"

record chunk =
  chunk_id :: string
  document :: string
  metadata :: meta

text \<open>
  The three parallel lists \<open>documents\<close>, \<open>metadatas\<close> and \<open>ids\<close> that every ingestion
  handler fills and then hands to \<open>collection.add\<close>.
\<close>

record pending =
  documents :: "string list"
  metadatas :: "meta list"
  ids :: "string list"

definition no_pending :: pending where
  "no_pending = \<lparr>documents = [], metadatas = [], ids = []\<rparr>"

text \<open>One pass of a loop body doing the three \<open>append\<close> calls for each row, in order.\<close>

definition append_rows :: "(string \<times> meta \<times> string) list \<Rightarrow> pending \<Rightarrow> pending" where
  "append_rows rows p =
     \<lparr>documents = documents p @ map fst rows,
      metadatas = metadatas p @ map (\<lambda>r. fst (snd r)) rows,
      ids = ids p @ map (\<lambda>r. snd (snd r)) rows\<rparr>"

definition endswith :: "string \<Rightarrow> string \<Rightarrow> bool" where
  "endswith s suffix = (length suffix \<le> length s \<and> drop (length s - length suffix) s = suffix)"

text \<open>\<open>text.split('\n\n')\<close>: the pieces between non-overlapping separators, leftmost first.\<close>

fun split_paragraphs :: "string \<Rightarrow> string list" where
  "split_paragraphs [] = [[]]"
| "split_paragraphs [a] = [[a]]"
| "split_paragraphs (a # b # rest) =
     (if a = CHR 0x0A \<and> b = CHR 0x0A then [] # split_paragraphs rest
      else (case split_paragraphs (b # rest) of
              [] \<Rightarrow> [[a]]
            | piece # pieces \<Rightarrow> (a # piece) # pieces))"

text \<open>\<open>chunks = [t.strip() for t in text.split('\n\n') if t.strip()]\<close>\<close>

definition text_chunks :: "string \<Rightarrow> string list" where
  "text_chunks text = [strip t. t \<leftarrow> split_paragraphs text, strip t \<noteq> []]"

definition chunk_key :: "string \<Rightarrow> nat \<Rightarrow> nat \<Rightarrow> string" where
  "chunk_key doc_file i j = doc_file @ ''_'' @ str_nat i @ ''_'' @ str_nat j"

text \<open>
  A file as the handlers meet it: its name, what the PDF extractors do on it, what
  \<open>open(...).read()\<close> gives, and whether \<open>file.save\<close> of an upload raises.
\<close>

record source_file =
  filename :: string
  pdf :: pdf_file
  text_content :: "exn + string"
  save_error :: "exn option"

subsection \<open>process_documents (lines 684-781)\<close>

text \<open>Lines 724-752, the body of the \<open>try\<close> for file number \<open>i\<close>; an exception skips the file.\<close>

definition process_file :: "bool \<Rightarrow> nat \<Rightarrow> source_file \<Rightarrow> pending \<Rightarrow> pending" where
  "process_file tess i f p =
     (let doc_file = filename f in
      if endswith doc_file ''.pdf'' then
        (case robust_extract_text_from_pdf tess (pdf f) of
           Inl e \<Rightarrow> p
         | Inr extracted_texts \<Rightarrow>
             append_rows [(text, [(''source'', JStr doc_file), (''page'', JInt (int j))],
                      chunk_key doc_file i j).
                     (j, text) \<leftarrow> enumerate 0 extracted_texts, text \<noteq> [] \<and> length text > 50] p)
      else if endswith doc_file ''.txt'' then
        (case text_content f of
           Inl e \<Rightarrow> p
         | Inr text \<Rightarrow>
             (let chunks = text_chunks text;
                  p1 = append_rows [(chunk, [(''source'', JStr doc_file), (''part'', JInt (int j))],
                                chunk_key doc_file i j).
                               (j, chunk) \<leftarrow> enumerate 0 chunks, length chunk > 50] p
              in if chunks = [] \<and> length text > 50
                 then append_rows [(text, [(''source'', JStr doc_file), (''part'', JInt 0)],
                               chunk_key doc_file i 0)] p1
                 else p1))
      else p)"

fun process_files :: "bool \<Rightarrow> nat \<Rightarrow> source_file list \<Rightarrow> pending \<Rightarrow> pending" where
  "process_files tess i [] p = p"
| "process_files tess i (f # fs) p = process_files tess (Suc i) fs (process_file tess i f p)"

definition sample_text :: string where
  "sample_text = ''This is a sample document for the EU Sanctions dataset. The European Union imposes sanctions or restrictive measures in pursuit of the specific objectives of the Common Foreign and Security Policy (CFSP). Sanctions are preventative, non-punitive instruments which aim to bring about a change in policy or activity by targeting non-EU countries, entities, and individuals responsible for the malign behavior at stake.''"

text \<open>Lines 709-755: the listing of \<open>DOCUMENTS_DIR\<close> is filtered and cut to ten files.\<close>

definition listed_doc_files :: "source_file list \<Rightarrow> source_file list" where
  "listed_doc_files listing =
     take 10 [f \<leftarrow> listing. endswith (filename f) ''.pdf'' \<or> endswith (filename f) ''.txt'']"

definition process_documents_pending :: "bool \<Rightarrow> source_file list \<Rightarrow> pending" where
  "process_documents_pending tess listing =
     (let doc_files = listed_doc_files listing;
          p0 = (if doc_files = []
                then append_rows [(sample_text, [(''source'', JStr ''sample_document.txt''), (''page'', JInt 1)],
                              ''sample_document_0_1'')] no_pending
                else no_pending)
      in process_files tess 0 doc_files p0)"

subsection \<open>Batched insertion\<close>

text \<open>
  \<open>for i in range(0, len(documents), 100)\<close> with the three slices \<open>[i:i+100]\<close>
  (lines 759-768, 871-879 and 1986-1990). The result lists the arguments of the successive
  \<open>collection.add\<close> calls.
\<close>

type_synonym batch = "string list \<times> meta list \<times> string list"

function batch_calls :: "nat \<Rightarrow> pending \<Rightarrow> batch list" where
  "batch_calls i p =
     (if i < length (documents p)
      then (take 100 (drop i (documents p)), take 100 (drop i (metadatas p)),
            take 100 (drop i (ids p))) # batch_calls (i + 100) p
      else [])"
  by pat_completeness auto
termination
  by (relation "measure (\<lambda>(i, p). length (documents p) - i)") auto

declare batch_calls.simps [simp del]

text \<open>
  \<open>collection.add\<close> stores one chunk per position of the three lists. The store is the
  list of chunks in insertion order; how the backend treats an id it already holds is not
  part of the model.
\<close>

definition batch_chunks :: "batch \<Rightarrow> chunk list" where
  "batch_chunks b =
     (case b of (batch_docs, batch_meta, batch_ids) \<Rightarrow>
        map (\<lambda>(d, m, i). \<lparr>chunk_id = i, document = d, metadata = m\<rparr>)
            (zip batch_docs (zip batch_meta batch_ids)))"

definition add_batches :: "pending \<Rightarrow> chunk list \<Rightarrow> chunk list" where
  "add_batches p coll = foldl (\<lambda>c b. c @ batch_chunks b) coll (batch_calls 0 p)"

section \<open>The chunk store and the dataset metadata file\<close>

text \<open>
  \<open>collections\<close> is the Chroma client's state: the collections by name, in the order
  \<open>list_collections\<close> reports them, each with its chunks in insertion order.
  \<open>dataset_metadata\<close> is what \<open>load_dataset_metadata\<close> returns for the JSON file (the
  empty dict when the file is missing or unreadable, lines 163-169), and
  \<open>metadata_writable\<close> tells whether opening the file for writing succeeds.
  \<open>delete_refused\<close> and \<open>read_refused\<close> name the collections on which the backend raises
  for \<open>delete_collection\<close> and for \<open>collection.get\<close>, with the text of the exception;
  \<open>list_refused\<close> does the same for \<open>list_collections\<close>.
\<close>

record world =
  collections :: "(string \<times> chunk list) list"
  dataset_metadata :: "(string \<times> meta) list"
  metadata_writable :: bool
  delete_refused :: "(string \<times> string) list"
  read_refused :: "(string \<times> string) list"
  list_refused :: "string option"

definition load_dataset_metadata :: "world \<Rightarrow> (string \<times> meta) list" where
  "load_dataset_metadata w = dataset_metadata w"

text \<open>Lines 171-176: an IOError is printed and swallowed, the file stays as it was.\<close>

definition save_dataset_metadata :: "(string \<times> meta) list \<Rightarrow> world \<Rightarrow> world" where
  "save_dataset_metadata md w = (if metadata_writable w then w\<lparr>dataset_metadata := md\<rparr> else w)"

definition get_collection :: "string \<Rightarrow> world \<Rightarrow> exn + chunk list" where
  "get_collection n w =
     (case map_of (collections w) n of
        None \<Rightarrow> Inl (ValueError, ''Collection '' @ n @ '' does not exist.'')
      | Some cs \<Rightarrow> Inr cs)"

definition create_collection :: "string \<Rightarrow> world \<Rightarrow> world" where
  "create_collection n w = w\<lparr>collections := collections w @ [(n, [])]\<rparr>"

definition get_or_create_collection :: "string \<Rightarrow> world \<Rightarrow> world" where
  "get_or_create_collection n w =
     (case map_of (collections w) n of None \<Rightarrow> create_collection n w | Some cs \<Rightarrow> w)"

definition collection_count :: "string \<Rightarrow> world \<Rightarrow> nat" where
  "collection_count n w = (case map_of (collections w) n of None \<Rightarrow> 0 | Some cs \<Rightarrow> length cs)"

definition collection_get :: "string \<Rightarrow> world \<Rightarrow> exn + chunk list" where
  "collection_get n w =
     (case map_of (read_refused w) n of
        Some msg \<Rightarrow> Inl (OtherError, msg)
      | None \<Rightarrow> get_collection n w)"

definition collection_add :: "string \<Rightarrow> pending \<Rightarrow> world \<Rightarrow> world" where
  "collection_add n p w =
     (case map_of (collections w) n of
        None \<Rightarrow> w
      | Some cs \<Rightarrow> w\<lparr>collections := AList.update n (add_batches p cs) (collections w)\<rparr>)"


definition delete_collection :: "string \<Rightarrow> world \<Rightarrow> exn + world" where
  "delete_collection n w =
     (case map_of (delete_refused w) n of
        Some msg \<Rightarrow> Inl (OtherError, msg)
      | None \<Rightarrow>
          (case map_of (collections w) n of
             None \<Rightarrow> Inl (ValueError, ''Collection '' @ n @ '' does not exist.'')
           | Some cs \<Rightarrow> Inr (w\<lparr>collections := AList.delete n (collections w)\<rparr>)))"

text \<open>\<open>d.get(k)\<close> and \<open>d.get(k, default)\<close> on a dict.\<close>

definition dict_get :: "meta \<Rightarrow> string \<Rightarrow> jval" where
  "dict_get d k = (case map_of d k of None \<Rightarrow> JNull | Some v \<Rightarrow> v)"

definition dict_get_default :: "meta \<Rightarrow> string \<Rightarrow> jval \<Rightarrow> jval" where
  "dict_get_default d k dflt = (case map_of d k of None \<Rightarrow> dflt | Some v \<Rightarrow> v)"

text \<open>
  The scan of lines 429-435, repeated at 623-629, 2000-2005 and 2044-2049: the set of
  the truthy \<open>source\<close> values of all chunks. A Python set holds \<open>True\<close> and \<open>1\<close> as one
  element, so a boolean is entered as the integer it equals.
\<close>

fun set_key :: "jval \<Rightarrow> jval" where
  "set_key (JBool b) = JInt (if b then 1 else 0)"
| "set_key v = v"

definition unique_sources :: "chunk list \<Rightarrow> jval list" where
  "unique_sources cs =
     remdups [set_key (dict_get (metadata c) ''source'').
              c \<leftarrow> cs, truthy (map_of (metadata c) ''source'')]"

record response =
  status :: nat
  body :: meta

fun join :: "string \<Rightarrow> string list \<Rightarrow> string" where
  "join sep [] = []"
| "join sep [x] = x"
| "join sep (x # y # rest) = x @ sep @ join sep (y # rest)"

section \<open>Listing datasets\<close>

text \<open>
  An entry of the listing is a dict with a \<open>name\<close> key; \<open>ds_info\<close> holds its other keys.
  \<open>DEFAULT_DATASETS\<close> is defined in \<open>app.config\<close>, which is not part of the sources at
  hand: it is a parameter, a list of such dicts.
\<close>

record dataset_info =
  ds_name :: string
  ds_info :: meta





section \<open>Deleting a dataset\<close>

text \<open>\<open>delete_dataset\<close>, lines 551-605.\<close>

definition delete_dataset :: "dataset_info list \<Rightarrow> string \<Rightarrow> world \<Rightarrow> response \<times> world" where
  "delete_dataset DEFAULT_DATASETS dataset_name w =
     (if dataset_name \<in> set (map ds_name DEFAULT_DATASETS)
      then (\<lparr>status = 400, body = [(''error'', JStr ''Cannot delete default dataset'')]\<rparr>, w)
      else
        (case
           (case delete_collection dataset_name w of
              Inr w' \<Rightarrow>
                (True, [''Collection '' @ [CHR 0x27] @ dataset_name @ [CHR 0x27]
                          @ '' deleted from ChromaDB.''], w')
            | Inl e \<Rightarrow>
                (case get_collection dataset_name w of
                   Inr cs \<Rightarrow>
                     (False, [''Failed to delete collection '' @ [CHR 0x27] @ dataset_name
                                @ [CHR 0x27] @ '' from ChromaDB: '' @ snd e], w)
                 | Inl e' \<Rightarrow>
                     (True, [''Collection '' @ [CHR 0x27] @ dataset_name @ [CHR 0x27]
                               @ '' not found in ChromaDB (considered successfully removed).''], w)))
         of (deleted_from_chroma, deletion_messages, w1) \<Rightarrow>
           (let md = load_dataset_metadata w1;
                present = (dataset_name \<in> set (map fst md));
                w2 = (if present then save_dataset_metadata (AList.delete dataset_name md) w1 else w1);
                deleted_from_metadata = True;
                msgs = deletion_messages @
                  [if present
                   then ''Dataset '' @ [CHR 0x27] @ dataset_name @ [CHR 0x27]
                          @ '' deleted from metadata.''
                   else ''Dataset '' @ [CHR 0x27] @ dataset_name @ [CHR 0x27]
                          @ '' not found in metadata (considered successfully removed from metadata).'']
            in if deleted_from_chroma \<and> deleted_from_metadata
               then (\<lparr>status = 200,
                      body = [(''success'', JBool True),
                              (''message'',
                               JStr (''Dataset '' @ [CHR 0x27] @ dataset_name @ [CHR 0x27]
                                     @ '' successfully deleted. Details: '' @ join '' '' msgs))]\<rparr>, w2)
               else if deleted_from_metadata
               then (\<lparr>status = 200,
                      body = [(''success'', JBool True),
                              (''message'',
                               JStr (''Dataset '' @ [CHR 0x27] @ dataset_name @ [CHR 0x27]
                                     @ '' removed. Status: '' @ join '' '' msgs))]\<rparr>, w2)
               else (\<lparr>status = 500,
                      body = [(''error'',
                               JStr (''Failed to fully delete dataset '' @ [CHR 0x27] @ dataset_name
                                     @ [CHR 0x27] @ ''. Status: '' @ join '' '' msgs))]\<rparr>, w2))))"

section \<open>Deleting a document\<close>





section \<open>Ingestion handlers\<close>

datatype outcome = Failed string | Complete string

text \<open>\<open>process_documents\<close>, lines 684-781. \<open>DOCUMENTS_DIR\<close> is the path configured in
  \<open>app.config\<close>, \<open>documents_dir\<close> the listing of that directory, \<open>None\<close> when it does
  not exist.\<close>

definition process_documents ::
  "string \<Rightarrow> bool \<Rightarrow> string option \<Rightarrow> string \<Rightarrow> source_file list option \<Rightarrow> world
     \<Rightarrow> outcome \<times> world"
where
  "process_documents DOCUMENTS_DIR tess requested_name dataset_description documents_dir w =
     (let dataset_name = (case requested_name of None \<Rightarrow> ''EU-Sanctions'' | Some n \<Rightarrow> n);
          w1 = get_or_create_collection dataset_name w
      in case documents_dir of
           None \<Rightarrow>
             (Failed (''Documents directory not found. Created: '' @ DOCUMENTS_DIR
                      @ ''. Please add PDF files to this directory.''), w1)
         | Some listing \<Rightarrow>
             (let p = process_documents_pending tess listing;
                  w2 = collection_add dataset_name p w1;
                  w3 = (if dataset_description \<noteq> []
                        then save_dataset_metadata
                               (AList.update dataset_name [(''description'', JStr dataset_description)]
                                  (load_dataset_metadata w2)) w2
                        else w2)
              in (Complete (''Processed '' @ str_nat (length (documents p)) @ '' text chunks from ''
                            @ str_nat (length (listed_doc_files listing)) @ '' documents''), w3)))"

text \<open>\<open>str.lower\<close> on the Latin-1 range and \<open>allowed_file\<close>, lines 190-192.\<close>

definition lower_char :: "char \<Rightarrow> char" where
  "lower_char c =
     (case map_of (zip ''ABCDEFGHIJKLMNOPQRSTUVWXYZ'' ''abcdefghijklmnopqrstuvwxyz'') c of
        Some l \<Rightarrow> l
      | None \<Rightarrow>
          (let n = (of_char c :: nat)
           in if 192 \<le> n \<and> n \<le> 222 \<and> n \<noteq> 215 then char_of (n + 32) else c))"

definition allowed_file :: "string \<Rightarrow> bool" where
  "allowed_file fname =
     (CHR ''.'' \<in> set fname \<and>
      map lower_char (rev (takeWhile (\<lambda>c. c \<noteq> CHR ''.'') (rev fname))) \<in> set [''pdf'', ''txt''])"

text \<open>
  Lines 844-859 of \<open>upload_documents\<close>, and again lines 1954-1971 of
  \<open>upload_documents_to_dataset\<close>: the body of the \<open>try\<close> for file number \<open>i\<close>, whose name
  after \<open>secure_filename\<close> is \<open>fname\<close>. An exception skips the file.
\<close>

definition upload_file_rows :: "bool \<Rightarrow> nat \<Rightarrow> string \<Rightarrow> source_file \<Rightarrow> pending \<Rightarrow> pending" where
  "upload_file_rows tess i fname f p =
     (if endswith fname ''.pdf'' then
        (case robust_extract_text_from_pdf tess (pdf f) of
           Inl e \<Rightarrow> p
         | Inr extracted_texts \<Rightarrow>
             append_rows [(text, [(''source'', JStr fname), (''page'', JInt (int j + 1))],
                           chunk_key fname i j).
                          (j, text) \<leftarrow> enumerate 0 extracted_texts, text \<noteq> [] \<and> length text > 50] p)
      else if endswith fname ''.txt'' then
        (case text_content f of
           Inl e \<Rightarrow> p
         | Inr text \<Rightarrow>
             append_rows [(chunk, [(''source'', JStr fname), (''page'', JInt 1)],
                           chunk_key fname i j).
                          (j, chunk) \<leftarrow> enumerate 0 (text_chunks text), length chunk > 50] p)
      else p)"

text \<open>
  Lines 837-868. \<open>secure_filename\<close> is werkzeug's, a parameter. \<open>file.save\<close> is outside the
  inner \<open>try\<close>: when it raises, the whole upload stops.
\<close>

fun upload_files ::
  "(string \<Rightarrow> string) \<Rightarrow> bool \<Rightarrow> nat \<Rightarrow> source_file list \<Rightarrow> pending \<Rightarrow> exn + pending"
where
  "upload_files secure_filename tess i [] p = Inr p"
| "upload_files secure_filename tess i (f # fs) p =
     (if filename f \<noteq> [] \<and> allowed_file (filename f) then
        (case save_error f of
           Some e \<Rightarrow> Inl e
         | None \<Rightarrow>
             upload_files secure_filename tess (Suc i) fs
               (upload_file_rows tess i (secure_filename (filename f)) f p))
      else upload_files secure_filename tess (Suc i) fs p)"

record upload_request =
  uploaded :: "source_file list option"
  form :: "(string \<times> string) list"

definition form_get :: "(string \<times> string) list \<Rightarrow> string \<Rightarrow> string \<Rightarrow> string" where
  "form_get fm k dflt = (case map_of fm k of None \<Rightarrow> dflt | Some v \<Rightarrow> v)"

text \<open>
  \<open>upload_documents\<close>, lines 784-902; \<open>now\<close> is \<open>int(time.time())\<close> and \<open>current_time\<close> is
  \<open>datetime.now().isoformat()\<close>. An exception anywhere ends the stream with an error line
  and leaves the stores as they were at that moment.
\<close>

definition upload_documents ::
  "(string \<Rightarrow> string) \<Rightarrow> bool \<Rightarrow> int \<Rightarrow> string \<Rightarrow> upload_request \<Rightarrow> world \<Rightarrow> outcome \<times> world"
where
  "upload_documents secure_filename tess now current_time req w =
     (case uploaded req of
        None \<Rightarrow> (Failed ''No files uploaded'', w)
      | Some fs \<Rightarrow>
          (case sanitized_name (form_get (form req) ''dataset_name'' ''New Dataset'') now of
             Inl e \<Rightarrow> (Failed (snd e), w)
           | Inr dataset_name \<Rightarrow>
               (case get_collection dataset_name w of
                  Inr cs \<Rightarrow>
                    (Failed (''Dataset '' @ [CHR 0x27] @ dataset_name @ [CHR 0x27] @ '' already exists''), w)
                | Inl e \<Rightarrow>
                    (let w1 = create_collection dataset_name w;
                         total_documents = length fs
                     in case upload_files secure_filename tess 0 fs no_pending of
                          Inl e \<Rightarrow> (Failed (snd e), w1)
                        | Inr p \<Rightarrow>
                            (let w2 = collection_add dataset_name p w1;
                                 md = load_dataset_metadata w2;
                                 w3 = save_dataset_metadata
                                        (AList.update dataset_name
                                           [(''description'', JStr (form_get (form req) ''dataset_description'' '''')),
                                            (''author'', JStr (form_get (form req) ''dataset_author'' '''')),
                                            (''topic'', JStr (form_get (form req) ''dataset_topic'' '''')),
                                            (''linkedin_url'', JStr (form_get (form req) ''dataset_linkedin'' '''')),
                                            (''custom_instructions'',
                                               JStr (form_get (form req) ''dataset_custom_instructions'' '''')),
                                            (''created_at'', JStr current_time),
                                            (''last_update_date'', JStr current_time),
                                            (''document_count'', JInt (int total_documents))]
                                           md) w2
                             in (Complete ''Processing complete!'', w3))))))"

text \<open>\<open>upload_documents_to_dataset\<close>, lines 1900-2024. First the files are saved
  (lines 1919-1924), then the saved ones are processed (lines 1951-1973).\<close>

fun save_uploads :: "(string \<Rightarrow> string) \<Rightarrow> source_file list \<Rightarrow> exn + (string \<times> source_file) list" where
  "save_uploads secure_filename [] = Inr []"
| "save_uploads secure_filename (f # fs) =
     (if filename f \<noteq> [] \<and> allowed_file (filename f) then
        (case save_error f of
           Some e \<Rightarrow> Inl e
         | None \<Rightarrow>
             (case save_uploads secure_filename fs of
                Inl e \<Rightarrow> Inl e
              | Inr saved \<Rightarrow> Inr ((secure_filename (filename f), f) # saved)))
      else save_uploads secure_filename fs)"

fun append_files :: "bool \<Rightarrow> nat \<Rightarrow> (string \<times> source_file) list \<Rightarrow> pending \<Rightarrow> pending" where
  "append_files tess i [] p = p"
| "append_files tess i (sf # rest) p =
     append_files tess (Suc i) rest (upload_file_rows tess i (fst sf) (snd sf) p)"

definition upload_documents_to_dataset ::
  "(string \<Rightarrow> string) \<Rightarrow> bool \<Rightarrow> string \<Rightarrow> string \<Rightarrow> upload_request \<Rightarrow> world \<Rightarrow> outcome \<times> world"
where
  "upload_documents_to_dataset secure_filename tess now_iso dataset_name req w =
     (case uploaded req of
        None \<Rightarrow> (Failed ''No files uploaded'', w)
      | Some fs \<Rightarrow>
          (case save_uploads secure_filename fs of
             Inl e \<Rightarrow> (Failed (''Server error: '' @ snd e), w)
           | Inr saved_files \<Rightarrow>
               (if saved_files = [] then (Failed ''No valid files uploaded'', w)
                else
                  (let w1 = get_or_create_collection dataset_name w;
                       md = load_dataset_metadata w1;
                       p = append_files tess 0 saved_files no_pending;
                       w2 = collection_add dataset_name p w1
                   in case map_of md dataset_name of
                        None \<Rightarrow> (Complete ''Upload complete!'', w2)
                      | Some current_metadata \<Rightarrow>
                          (case collection_get dataset_name w2 of
                             Inl e \<Rightarrow> (Failed (''Server error: '' @ snd e), w2)
                           | Inr cs \<Rightarrow>
                               (let current_unique_sources =
                                      remdups (unique_sources cs @ map (\<lambda>sf. JStr (fst sf)) saved_files);
                                    m1 = AList.update ''document_count''
                                           (JInt (int (length current_unique_sources))) current_metadata;
                                    m2 = AList.update ''last_update_date'' (JStr now_iso) m1;
                                    w3 = save_dataset_metadata (AList.update dataset_name m2 md) w2
                                in (Complete ''Upload complete!'', w3)))))))"

text \<open>Every chunk of the store after a request was in a collection of the same name
  before or has a text longer than fifty characters.\<close>

definition only_long_chunks_added :: "world \<Rightarrow> world \<Rightarrow> bool" where
  "only_long_chunks_added w w' =
     list_all (\<lambda>(n, cs').
        list_all (\<lambda>c. length (document c) > 50 \<or>
                       c \<in> set (concat [cs. (m, cs) \<leftarrow> collections w, m = n])) cs')
       (collections w')"


text \<open>The three pending lists run in step, and every pending text is longer than fifty
  characters.\<close>

definition aligned :: "pending \<Rightarrow> bool" where
  "aligned p = (length (metadatas p) = length (documents p) \<and> length (ids p) = length (documents p))"

definition all_long :: "pending \<Rightarrow> bool" where
  "all_long p = list_all (\<lambda>d. length d > 50) (documents p)"

section \<open>Query handlers\<close>

text \<open>
  The retrieval pipeline \<open>LegalDocumentProcessor.query_dataset\<close> lives in
  \<open>app.utils.document_processor\<close>, which is not part of the sources at hand. It is a
  parameter: from the dataset name, the query and \<open>n_results\<close> (hybrid search and reranking
  are always switched on) it raises or returns the batch-of-one dict with \<open>documents\<close> and
  \<open>metadatas\<close>. Each handler reports the calls it made to it in \<open>pipeline_calls\<close>.
\<close>

record query_result =
  res_documents :: "string list list"
  res_metadatas :: "meta list list"

type_synonym pipeline = "world \<Rightarrow> string \<Rightarrow> string \<Rightarrow> nat \<Rightarrow> exn + query_result"

record retrieval =
  results :: query_result
  prompt_context :: string
  sources :: "meta list"
  pipeline_calls :: "(string \<times> string \<times> nat) list"

definition no_documents_result :: query_result where
  "no_documents_result =
     \<lparr>res_documents = [[''No documents found in the selected dataset. Please upload documents or select a different dataset.'']],
      res_metadatas = [[[(''source'', JStr ''System''), (''page'', JInt 0)]]]\<rparr>"

text \<open>\<open>xs[0]\<close> on a list.\<close>

definition first_item :: "'a list \<Rightarrow> exn + 'a" where
  "first_item xs = (case xs of [] \<Rightarrow> Inl (IndexError, ''list index out of range'') | x # _ \<Rightarrow> Inr x)"

text \<open>\<open>str(v)\<close> of a metadata value inside an f-string.\<close>

fun py_str :: "jval \<Rightarrow> string" where
  "py_str JNull = ''None''"
| "py_str (JBool b) = (if b then ''True'' else ''False'')"
| "py_str (JInt i) = str_int i"
| "py_str (JStr s) = s"

definition page_of :: "meta \<Rightarrow> jval" where
  "page_of m = dict_get_default m ''page'' (dict_get_default m ''part'' (JInt 0))"

record chat_request =
  message :: "string option"
  dataset :: "string option"

text \<open>
  \<open>chat\<close>, lines 290-346: the retrieval and the assembly of the context and of the
  citations. The call of the language model that follows is wrapped in its own
  \<open>try\<close> and reads none of the stores.
\<close>

definition chat :: "pipeline \<Rightarrow> chat_request \<Rightarrow> world \<Rightarrow> exn + retrieval \<times> world" where
  "chat query_dataset req w =
     (let user_message = (case message req of None \<Rightarrow> [] | Some m \<Rightarrow> m);
          dataset_name = (case dataset req of None \<Rightarrow> ''EU-Sanctions'' | Some d \<Rightarrow> d);
          w1 = get_or_create_collection dataset_name w;
          doc_count = collection_count dataset_name w1;
          n_results = min 5 (max 1 doc_count);
          answer = (if doc_count = 0 then (Inr no_documents_result, [])
                    else (query_dataset w1 dataset_name user_message n_results,
                          [(dataset_name, user_message, n_results)]))
      in case fst answer of
           Inl e \<Rightarrow> Inl e
         | Inr res \<Rightarrow>
             (case first_item (res_documents res) of
                Inl e \<Rightarrow> Inl e
              | Inr docs \<Rightarrow>
                  (case first_item (res_metadatas res) of
                     Inl e \<Rightarrow> Inl e
                   | Inr metas \<Rightarrow>
                       Inr (\<lparr>results = res,
                             prompt_context = join [CHR 0x0A, CHR 0x0A] docs,
                             sources =
                               map (\<lambda>(doc, m).
                                      [(''source'', dict_get_default m ''source'' (JStr ''Unknown'')),
                                       (''page'', page_of m),
                                       (''snippet'',
                                          JStr (if length doc > 150 then take 150 doc @ ''...'' else doc))])
                                   (zip docs metas),
                             pipeline_calls = snd answer\<rparr>, w1))))"

text \<open>
  \<open>add_message\<close>, lines 1081-1154. The chat store (\<open>app.models.chat\<close>) is not part of the
  sources at hand: \<open>stored_dataset\<close> is what \<open>chat_storage.get_chat\<close> returns for the chat
  id, \<open>None\<close> for an unknown chat, otherwise the chat's \<open>dataset\<close> entry if it has one.
  The result \<open>None\<close> is the 404 answer.
\<close>

definition add_message ::
  "pipeline \<Rightarrow> string option option \<Rightarrow> chat_request \<Rightarrow> world \<Rightarrow> exn + retrieval option"
where
  "add_message query_dataset stored_dataset req w =
     (let user_message = (case message req of None \<Rightarrow> [] | Some m \<Rightarrow> m) in
      case stored_dataset of
        None \<Rightarrow> Inr None
      | Some chat_dataset \<Rightarrow>
          (let dataset_name =
                 (case dataset req of
                    None \<Rightarrow> (case chat_dataset of None \<Rightarrow> ''Default'' | Some d \<Rightarrow> d)
                  | Some d \<Rightarrow>
                      (if d = [] then (case chat_dataset of None \<Rightarrow> ''Default'' | Some d' \<Rightarrow> d')
                       else d))
           in case query_dataset w dataset_name user_message 5 of
                Inl e \<Rightarrow> Inl e
              | Inr res \<Rightarrow>
                  (if res_documents res = [] then
                     Inr (Some \<lparr>results = res, prompt_context = [], sources = [],
                                pipeline_calls = [(dataset_name, user_message, 5)]\<rparr>)
                   else
                     (case first_item (res_documents res) of
                        Inl e \<Rightarrow> Inl e
                      | Inr docs \<Rightarrow>
                          (case first_item (res_metadatas res) of
                             Inl e \<Rightarrow> Inl e
                           | Inr metas \<Rightarrow>
                               Inr (Some
                                 \<lparr>results = res,
                                  prompt_context =
                                    concat (map (\<lambda>(doc, m).
                                        ''Source: '' @ py_str (dict_get_default m ''source'' (JStr ''Unknown''))
                                        @ '' (Page '' @ py_str (page_of m) @ '')'' @ [CHR 0x0A] @ doc
                                        @ [CHR 0x0A, CHR 0x0A]) (zip docs metas)),
                                  sources = [],
                                  pipeline_calls = [(dataset_name, user_message, 5)]\<rparr>))))))"

section \<open>Concrete states\<close>

text \<open>A store whose metadata file cannot be written (read-only file or directory).\<close>

definition readonly_world :: world where
  "readonly_world =
     \<lparr>collections = [(''laws'', [\<lparr>chunk_id = ''a.txt_0_0'', document = ''text'',
                                  metadata = [(''source'', JStr ''a.txt''), (''page'', JInt 1)]\<rparr>])],
      dataset_metadata = [(''laws'', [(''description'', JStr ''case law''), (''document_count'', JInt 1)])],
      metadata_writable = False,
      delete_refused = [], read_refused = [], list_refused = None\<rparr>"


text \<open>An upload of two files into a fresh store; the second file has no allowed extension.\<close>

definition blank_world :: world where
  "blank_world =
     \<lparr>collections = [], dataset_metadata = [], metadata_writable = True,
      delete_refused = [], read_refused = [], list_refused = None\<rparr>"

definition no_pdf :: pdf_file where
  "no_pdf =
     \<lparr>partition_hi_res = Inl (OtherError, ''not a PDF''), partition_default = Inr [],
      pypdf_pages = Inl (OtherError, ''not a PDF''), ocr_images = Inl (OtherError, ''not a PDF'')\<rparr>"



text \<open>A dataset without chunks, a dataset of two chunks, and a question.\<close>

definition empty_dataset_world :: world where
  "empty_dataset_world =
     \<lparr>collections = [(''empty'', [])], dataset_metadata = [], metadata_writable = True,
      delete_refused = [], read_refused = [], list_refused = None\<rparr>"

definition two_chunk_world :: world where
  "two_chunk_world =
     \<lparr>collections =
        [(''laws'',
          [\<lparr>chunk_id = ''reg1.pdf_0_0'', document = ''Article 1'',
            metadata = [(''source'', JStr ''reg1.pdf''), (''page'', JInt 1)]\<rparr>,
           \<lparr>chunk_id = ''reg1.pdf_0_1'', document = ''Article 2'',
            metadata = [(''source'', JStr ''reg1.pdf''), (''page'', JInt 2)]\<rparr>])],
      dataset_metadata = [], metadata_writable = True,
      delete_refused = [], read_refused = [], list_refused = None\<rparr>"

definition sanctions_question :: chat_request where
  "sanctions_question = \<lparr>message = Some ''sanctions committee'', dataset = None\<rparr>"

text \<open>An upload whose text file has a short and a long paragraph.\<close>

definition mixed_text :: string where
  "mixed_text = ''Short note.'' @ [CHR 0x0A, CHR 0x0A] @
     ''Council Regulation 269/2014 lists the persons subject to an asset freeze.''"

definition mixed_request :: upload_request where
  "mixed_request =
     \<lparr>uploaded = Some
        [\<lparr>filename = ''b.txt'', pdf = no_pdf, text_content = Inr mixed_text, save_error = None\<rparr>],
      form = [(''dataset_name'', ''laws'')]\<rparr>"

text \<open>A store whose backend refuses to delete the collection.\<close>

definition locked_world :: world where
  "locked_world = readonly_world\<lparr>metadata_writable := True,
                                 delete_refused := [(''laws'', ''database is locked'')]\<rparr>"

section \<open>Facts about the stores and about splitting\<close>


lemma collections_save [simp]: "collections (save_dataset_metadata md w) = collections w"
  by (simp add: save_dataset_metadata_def)

lemma read_refused_save [simp]: "read_refused (save_dataset_metadata md w) = read_refused w"
  by (simp add: save_dataset_metadata_def)

lemma split_paragraphs_plain:
  "CHR 0x0A \<notin> set s \<Longrightarrow> split_paragraphs s = [s]"
  by (induction s rule: split_paragraphs.induct) (auto split: list.splits)

section \<open>Dataset names are valid\<close>

lemma rev_dropWhile_rev_split:
  "xs = rev (dropWhile P (rev xs)) @ rev (takeWhile P (rev xs))"
proof -
  have "rev xs = takeWhile P (rev xs) @ dropWhile P (rev xs)" by simp
  then have "rev (rev xs) = rev (takeWhile P (rev xs) @ dropWhile P (rev xs))" by (rule arg_cong)
  then show ?thesis by (simp only: rev_rev_ident rev_append)
qed

lemma strip_chars_hd: "strip_chars cs s = c # r \<Longrightarrow> c \<notin> set cs"
proof -
  assume a: "strip_chars cs s = c # r"
  let ?P = "\<lambda>c. c \<in> set cs"
  let ?d = "dropWhile ?P s"
  from a have b: "rev (dropWhile ?P (rev ?d)) = c # r" by (simp add: strip_chars_def)
  have "?d = rev (dropWhile ?P (rev ?d)) @ rev (takeWhile ?P (rev ?d))"
    by (rule rev_dropWhile_rev_split)
  with b have d: "?d = c # (r @ rev (takeWhile ?P (rev ?d)))" by simp
  have cons: "\<And>xs ys. xs = c # ys \<Longrightarrow> xs \<noteq> [] \<and> hd xs = c" by simp
  from cons[OF d] have ne: "?d \<noteq> []" and h: "hd ?d = c" by blast+
  from ne have "\<not> ?P (hd ?d)" by (rule hd_dropWhile)
  with h show ?thesis by simp
qed

lemma strip_chars_last: "strip_chars cs s \<noteq> [] \<Longrightarrow> last (strip_chars cs s) \<notin> set cs"
proof -
  assume a: "strip_chars cs s \<noteq> []"
  let ?P = "\<lambda>c. c \<in> set cs"
  let ?e = "dropWhile ?P (rev (dropWhile ?P s))"
  from a have ne: "?e \<noteq> []" by (simp add: strip_chars_def)
  have "last (strip_chars cs s) = hd ?e" using ne by (simp add: strip_chars_def last_rev)
  moreover have "\<not> ?P (hd ?e)" using ne by (rule hd_dropWhile)
  ultimately show ?thesis by simp
qed

lemma isalnum_x: "isalnum CHR ''x''" by (simp add: isalnum_def)
lemma isalnum_digit: "isalnum (digit_char d)"
  by (simp add: isalnum_def digit_char_def)

lemma str_nat_nonempty: "str_nat n \<noteq> []"
  by (subst str_nat.simps) simp

lemma last_str_nat: "isalnum (last (str_nat n))"
  by (subst str_nat.simps) (simp add: isalnum_digit)

lemma str_nat_ok: "list_all name_char_ok (str_nat n)"
proof (induction n rule: str_nat.induct)
  case (1 n)
  show ?case
  proof (cases "n < 10")
    case True
    then show ?thesis by (subst str_nat.simps) (simp add: name_char_ok_def isalnum_digit)
  next
    case False
    with 1 have "list_all name_char_ok (str_nat (n div 10))" by simp
    with False show ?thesis
      by (subst str_nat.simps) (simp add: name_char_ok_def isalnum_digit)
  qed
qed

lemma str_int_nonempty: "str_int i \<noteq> []"
  by (simp add: str_int_def str_nat_nonempty)

lemma last_str_int: "isalnum (last (str_int i))"
  by (simp add: str_int_def str_nat_nonempty last_str_nat)

lemma str_int_ok: "list_all name_char_ok (str_int i)"
  by (simp add: str_int_def str_nat_ok name_char_ok_def)

lemma strip_chars_sub: "set (strip_chars cs s) \<subseteq> set s"
proof
  fix x assume "x \<in> set (strip_chars cs s)"
  then have "x \<in> set (dropWhile (\<lambda>c. c \<in> set cs) (rev (dropWhile (\<lambda>c. c \<in> set cs) s)))"
    by (simp add: strip_chars_def)
  then have "x \<in> set (rev (dropWhile (\<lambda>c. c \<in> set cs) s))" by (rule set_dropWhileD)
  then have "x \<in> set (dropWhile (\<lambda>c. c \<in> set cs) s)" by simp
  then show "x \<in> set s" by (rule set_dropWhileD)
qed

lemma fallback_valid:
  assumes "length (str_int now) \<le> 52"
  shows "valid_dataset_name (''dataset-'' @ str_int now)"
proof -
  have a: "list_all name_char_ok (''dataset-'' @ str_int now)"
    by (simp add: str_int_ok) (simp add: name_char_ok_def isalnum_def)
  have b: "last (''dataset-'' @ str_int now) = last (str_int now)"
    by (simp add: str_int_nonempty)
  have c: "isalnum CHR ''d''" by (simp add: isalnum_def)
  have d: "length (''dataset-'' @ str_int now) = 8 + length (str_int now)" by simp
  show ?thesis
    unfolding valid_dataset_name_def using a b c d assms last_str_int[of now]
    by (simp del: list_all_append length_append last.simps)
qed

lemma sanitized_raw_ok:
  "list_all name_char_ok (map (\<lambda>c. if isalnum c \<or> c \<in> set ''-_'' then c else CHR ''-'') n)"
  by (induction n) (auto simp: name_char_ok_def)

lemma list_all_subset: "set ys \<subseteq> set xs \<Longrightarrow> list_all P xs \<Longrightarrow> list_all P ys"
  by (auto simp: list_all_iff)

lemma kept_valid:
  assumes ok: "list_all name_char_ok s" and len: "3 \<le> length s" "length s \<le> 60"
    and h: "isalnum (hd s)" and l: "isalnum (last s)"
  shows "valid_dataset_name s"
proof (cases s)
  case Nil with len show ?thesis by simp
next
  case (Cons c r)
  with ok len h l show ?thesis by (simp add: valid_dataset_name_def)
qed

lemma patched_valid:
  assumes ok: "list_all name_char_ok s" and len: "3 \<le> length s" "length s \<le> 60"
    and h: "isalnum (hd s)"
  shows "valid_dataset_name (butlast s @ ''x'')"
proof -
  have "\<exists>c r. s = c # r \<and> r \<noteq> []" using len by (cases s) auto
  then obtain c r where s: "s = c # r" and r: "r \<noteq> []" by blast
  have "set (butlast s) \<subseteq> set s" by (auto dest: in_set_butlastD)
  from this ok have "list_all name_char_ok (butlast s)" by (rule list_all_subset)
  then have a: "list_all name_char_ok (butlast s @ ''x'')"
    by (simp add: name_char_ok_def isalnum_x)
  have b: "length (butlast s @ ''x'') = length s" using s by simp
  have c: "hd (butlast s @ ''x'') = hd s" using s r by simp
  have d: "last (butlast s @ ''x'') = CHR ''x''" by simp
  show ?thesis
    by (rule kept_valid) (use a b c d len h isalnum_x in \<open>simp_all del: list_all_append length_append butlast.simps\<close>)
qed

text \<open>
  C6. Whatever name is submitted, the sanitising block returns a name (it never hits
  the IndexError branch) made only of alphanumeric characters, \<open>-\<close> and \<open>_\<close>,
  of length 3 to 60, whose first and last characters are alphanumeric. The hypothesis
  bounds the decimal rendering of the clock value used by the fallback name
  \<open>dataset-<timestamp>\<close>.
\<close>

theorem sanitized_name_valid:
  assumes "length (str_int now) \<le> 52"
  shows "\<exists>s. sanitized_name dataset_name now = Inr s \<and> valid_dataset_name s"
proof -
  let ?s0 = "map (\<lambda>c. if isalnum c \<or> c \<in> set ''-_'' then c else CHR ''-'') dataset_name"
  let ?s1 = "strip_chars ''-_'' ?s0"
  let ?s2 = "if length ?s1 > 60 then take 60 ?s1 else ?s1"
  have ok1: "list_all name_char_ok ?s1"
    using strip_chars_sub sanitized_raw_ok by (rule list_all_subset)
  have "set ?s2 \<subseteq> set ?s1" by (auto dest: in_set_takeD)
  then have ok2: "list_all name_char_ok ?s2" using ok1 by (rule list_all_subset)
  have len2: "length ?s2 \<le> 60" by simp
  show ?thesis
  proof (cases "length ?s2 < 3")
    case True
    have v: "valid_dataset_name (''dataset-'' @ str_int now)"
      using assms by (rule fallback_valid)
    have d: "isalnum CHR ''d''" by (simp add: isalnum_def)
    have l: "isalnum (last (''ataset-'' @ str_int now))"
      using last_str_int[of now] by (simp add: str_int_nonempty)
    have "sanitized_name dataset_name now = Inr (''dataset-'' @ str_int now)"
      unfolding sanitized_name_def Let_def using True d l
      by simp
    with v show ?thesis by blast
  next
    case False
    then have len3: "3 \<le> length ?s2" by simp
    then have "\<exists>c r. ?s2 = c # r" by (cases ?s2) auto
    then obtain c r where cr: "?s2 = c # r" by blast
    have ne1: "?s1 \<noteq> []" using len3 by (auto split: if_splits)
    then obtain c1 r1 where cr1: "?s1 = c1 # r1" by (cases ?s1) auto
    have "c1 \<notin> set ''-_''" using cr1 by (rule strip_chars_hd)
    moreover have "name_char_ok c1" using ok1 cr1 by simp
    ultimately have "isalnum c1" by (auto simp: name_char_ok_def)
    moreover have "c = c1" using cr cr1 by (auto split: if_splits)
    ultimately have hc: "isalnum c" by simp
    then have h2: "isalnum (hd ?s2)" using cr by simp
    show ?thesis
    proof (cases "isalnum (last ?s2)")
      case True
      have "sanitized_name dataset_name now = Inr ?s2"
        unfolding sanitized_name_def Let_def using False True hc cr
        by (simp del: take_eq_Nil)
      moreover have "valid_dataset_name ?s2"
        using ok2 len3 len2 h2 True by (rule kept_valid)
      ultimately show ?thesis by blast
    next
      case nl: False
      have "sanitized_name dataset_name now = Inr (butlast ?s2 @ ''x'')"
        unfolding sanitized_name_def Let_def using False nl hc cr
        by (simp del: take_eq_Nil)
      moreover have "valid_dataset_name (butlast ?s2 @ ''x'')"
        using ok2 len3 len2 h2 by (rule patched_valid)
      ultimately show ?thesis by blast
    qed
  qed
qed

theorem sanitized_name_valid_witness:
  "length (str_int 1700000000) \<le> 52 \<and>
   (\<exists>s. sanitized_name ''--my data set!!--'' 1700000000 = Inr s \<and> valid_dataset_name s)"
proof -
  have h: "length (str_int 1700000000) \<le> 52"
    by (simp add: str_int_def str_nat.simps)
  from sanitized_name_valid[OF h, of "''--my data set!!--''"] h show ?thesis by blast
qed

section \<open>Extraction never raises\<close>

lemma element_loop_no_text:
  "list_all (\<lambda>e. e = None \<or> e = Some []) es \<Longrightarrow> element_loop es a s = (a, s)"
  by (induction es a s rule: element_loop.induct) auto

lemma strip_Nil: "strip [] = []"
  by (simp add: strip_def)

lemma page_loop_no_text:
  "list_all (\<lambda>p. case p of Inr (Some t) \<Rightarrow> strip t = [] | _ \<Rightarrow> True) ps \<Longrightarrow>
   snd (page_loop n ps t s) = (t, s)"
  by (induction n ps t s rule: page_loop.induct) auto

lemma ocr_loop_no_text:
  "list_all (\<lambda>p. case p of Inr t \<Rightarrow> strip t = [] | _ \<Rightarrow> True) ims \<Longrightarrow>
   snd (ocr_loop n ims t s) = (t, s)"
  by (induction n ims t s rule: ocr_loop.induct) auto

lemma method_unstructured_fail:
  "no_element_text (partition_elements f) \<Longrightarrow> method_unstructured f = ([], False)"
  by (auto simp: no_element_text_def method_unstructured_def element_loop_no_text split: sum.splits)

lemma method_pypdf_fail:
  assumes "no_page_text (pypdf_pages f)"
  shows "method_pypdf f ([], False) = ([], False)"
proof (cases "pypdf_pages f")
  case (Inl e)
  then show ?thesis by (simp add: method_pypdf_def)
next
  case (Inr pages)
  with assms have "snd (page_loop 0 pages [] False) = ([], False)"
    by (simp add: no_page_text_def page_loop_no_text)
  then obtain x where "page_loop 0 pages [] False = (x, [], False)"
    by (cases "page_loop 0 pages [] False") auto
  with Inr show ?thesis by (simp add: method_pypdf_def split: option.splits)
qed

lemma method_ocr_fail:
  assumes "\<not> avail \<or> no_ocr_text (ocr_images f)"
  shows "method_ocr avail f ([], False) = ([], False)"
proof (cases "avail")
  case False
  then show ?thesis by (simp add: method_ocr_def)
next
  case True
  with assms have n: "no_ocr_text (ocr_images f)" by simp
  show ?thesis
  proof (cases "ocr_images f")
    case (Inl e)
    then show ?thesis by (simp add: method_ocr_def)
  next
    case (Inr images)
    with n have "snd (ocr_loop 0 images [] False) = ([], False)"
      by (simp add: no_ocr_text_def ocr_loop_no_text)
    then obtain x where "ocr_loop 0 images [] False = (x, [], False)"
      by (cases "ocr_loop 0 images [] False") auto
    with Inr show ?thesis by (simp add: method_ocr_def split: option.splits)
  qed
qed

text \<open>
  C9. \<open>robust_extract_text_from_pdf\<close> returns on every file, whatever the three
  extractors do (each of their exceptions is caught inside the function), and when none of
  the methods extracts any text the value returned is the empty list.
\<close>

theorem robust_extract_never_raises:
  "(\<exists>texts. robust_extract_text_from_pdf avail f = Inr texts) \<and>
   (all_methods_fail avail f \<longrightarrow> robust_extract_text_from_pdf avail f = Inr [])"
proof
  show "\<exists>texts. robust_extract_text_from_pdf avail f = Inr texts"
    by (simp add: robust_extract_text_from_pdf_def split: prod.splits)
  show "all_methods_fail avail f \<longrightarrow> robust_extract_text_from_pdf avail f = Inr []"
  proof
    assume a: "all_methods_fail avail f"
    then have 1: "method_unstructured f = ([], False)"
      by (simp add: all_methods_fail_def method_unstructured_fail)
    from a have 2: "method_pypdf f ([], False) = ([], False)"
      by (simp add: all_methods_fail_def method_pypdf_fail)
    from a have 3: "method_ocr avail f ([], False) = ([], False)"
      by (intro method_ocr_fail) (simp add: all_methods_fail_def)
    show "robust_extract_text_from_pdf avail f = Inr []"
      by (simp add: robust_extract_text_from_pdf_def 1 2 3)
  qed
qed

theorem robust_extract_never_raises_witness:
  "all_methods_fail True unreadable_pdf \<and> robust_extract_text_from_pdf True unreadable_pdf = Inr []"
proof -
  have h: "all_methods_fail True unreadable_pdf"
    by (simp add: all_methods_fail_def unreadable_pdf_def no_element_text_def no_page_text_def
        no_ocr_text_def partition_elements_def strip_def isspace_def)
  from robust_extract_never_raises[of True unreadable_pdf] h show ?thesis by blast
qed

section \<open>Deleting a dataset\<close>

text \<open>
  C4. A deletion whose collection removal succeeds while the metadata file cannot be
  written: the record of the dataset stays in the file, yet the response is the very
  response of a full success (status 200, \<open>success\<close> true, the same message).
  \<open>deleted_from_metadata\<close> is set to \<open>True\<close> on both branches of lines 583-594 and
  \<open>save_dataset_metadata\<close> swallows the IOError, so the 500 branch of line 605 is never
  taken.
\<close>

theorem delete_dataset_hides_metadata_failure:
  "fst (delete_dataset [] ''laws'' readonly_world) =
     fst (delete_dataset [] ''laws'' (readonly_world\<lparr>metadata_writable := True\<rparr>)) \<and>
   status (fst (delete_dataset [] ''laws'' readonly_world)) = 200 \<and>
   map_of (body (fst (delete_dataset [] ''laws'' readonly_world))) ''success'' = Some (JBool True) \<and>
   map_of (collections (snd (delete_dataset [] ''laws'' readonly_world))) ''laws'' = None \<and>
   map_of (dataset_metadata (snd (delete_dataset [] ''laws'' readonly_world))) ''laws''
     = Some [(''description'', JStr ''case law''), (''document_count'', JInt 1)] \<and>
   map_of (dataset_metadata (snd (delete_dataset [] ''laws'' (readonly_world\<lparr>metadata_writable := True\<rparr>)))) ''laws''
     = None"
  by (simp add: delete_dataset_def readonly_world_def delete_collection_def get_collection_def
      load_dataset_metadata_def save_dataset_metadata_def AList.delete_eq)

text \<open>
  The other partial failure is told apart: when the backend refuses to delete the
  collection and the metadata record is removed, the response still says \<open>success\<close> but
  carries the message of line 602 with the failure text, not the message of a full success.
\<close>

lemma delete_dataset_flags_collection_failure:
  "fst (delete_dataset [] ''laws'' locked_world) =
     \<lparr>status = 200,
      body = [(''success'', JBool True),
              (''message'',
               JStr (''Dataset '' @ [CHR 0x27] @ ''laws'' @ [CHR 0x27] @ '' removed. Status: ''
                     @ ''Failed to delete collection '' @ [CHR 0x27] @ ''laws'' @ [CHR 0x27]
                     @ '' from ChromaDB: database is locked ''
                     @ ''Dataset '' @ [CHR 0x27] @ ''laws'' @ [CHR 0x27] @ '' deleted from metadata.''))]\<rparr> \<and>
   fst (delete_dataset [] ''laws'' locked_world)
     \<noteq> fst (delete_dataset [] ''laws'' (readonly_world\<lparr>metadata_writable := True\<rparr>)) \<and>
   map_of (collections (snd (delete_dataset [] ''laws'' locked_world))) ''laws'' \<noteq> None \<and>
   map_of (dataset_metadata (snd (delete_dataset [] ''laws'' locked_world))) ''laws'' = None"
  by (simp add: delete_dataset_def locked_world_def readonly_world_def delete_collection_def
      get_collection_def load_dataset_metadata_def save_dataset_metadata_def AList.delete_eq)

text \<open>
  C10. A deletion request that names one of the default datasets is answered with the
  400 error before anything is touched: the chunk store and the metadata file are returned
  as they were.
\<close>

theorem delete_dataset_default_rejected:
  "dataset_name \<in> set (map ds_name DEFAULT_DATASETS) \<Longrightarrow>
   delete_dataset DEFAULT_DATASETS dataset_name w =
     (\<lparr>status = 400, body = [(''error'', JStr ''Cannot delete default dataset'')]\<rparr>, w)"
  by (simp add: delete_dataset_def)

theorem delete_dataset_default_rejected_witness:
  "''EU-Sanctions'' \<in> set (map ds_name [\<lparr>ds_name = ''EU-Sanctions'', ds_info = []\<rparr>]) \<and>
   delete_dataset [\<lparr>ds_name = ''EU-Sanctions'', ds_info = []\<rparr>] ''EU-Sanctions'' readonly_world =
     (\<lparr>status = 400, body = [(''error'', JStr ''Cannot delete default dataset'')]\<rparr>, readonly_world)"
proof -
  have h: "''EU-Sanctions'' \<in> set (map ds_name [\<lparr>ds_name = ''EU-Sanctions'', ds_info = []\<rparr>])"
    by simp
  from delete_dataset_default_rejected[OF h, of readonly_world] h show ?thesis by blast
qed

section \<open>Deleting a document\<close>









section \<open>The document count of the listing\<close>








section \<open>The two query paths\<close>

text \<open>
  The \<open>/api/chat\<close> path does both things: it asks the pipeline for at most five and at most
  as many results as the collection has chunks, and it does not call it on an empty
  collection.
\<close>

lemma chat_requests_within_count:
  assumes "chat query_dataset req w = Inr (r, w')"
    and "(d, q, k) \<in> set (pipeline_calls r)"
  shows "1 \<le> k \<and> k \<le> 5 \<and> k \<le> collection_count d w' \<and> 0 < collection_count d w'"
  using assms
  by (auto simp: chat_def Let_def split: sum.splits if_splits)

lemma chat_empty_short_circuits:
  assumes "collection_count (case dataset req of None \<Rightarrow> ''EU-Sanctions'' | Some d \<Rightarrow> d)
             (get_or_create_collection (case dataset req of None \<Rightarrow> ''EU-Sanctions'' | Some d \<Rightarrow> d) w) = 0"
  shows "\<exists>r w'. chat query_dataset req w = Inr (r, w') \<and> results r = no_documents_result \<and>
           pipeline_calls r = []"
  using assms
  by (simp add: chat_def Let_def no_documents_result_def first_item_def)

text \<open>
  C1. On a dataset without chunks \<open>add_message\<close> (the \<open>/api/chats/<id>/messages\<close> path)
  never reads the chunk count: it calls the pipeline with \<open>n_results = 5\<close> and answers
  with whatever the pipeline returns or raises, whereas \<open>chat\<close> on the same dataset
  returns the fixed "no documents" result without calling the pipeline.
\<close>

theorem add_message_queries_empty_dataset:
  "collection_count ''empty'' empty_dataset_world = 0 \<and>
   (case query_dataset empty_dataset_world ''empty'' ''sanctions committee'' 5 of
      Inl e \<Rightarrow>
        add_message query_dataset (Some (Some ''empty'')) sanctions_question empty_dataset_world = Inl e
    | Inr res \<Rightarrow>
        (case add_message query_dataset (Some (Some ''empty'')) sanctions_question empty_dataset_world of
           Inr (Some r) \<Rightarrow>
             results r = res \<and> pipeline_calls r = [(''empty'', ''sanctions committee'', 5)]
         | Inr None \<Rightarrow> False
         | Inl e \<Rightarrow> res_documents res \<noteq> [] \<and> res_metadatas res = [])) \<and>
   chat query_dataset \<lparr>message = Some ''sanctions committee'', dataset = Some ''empty''\<rparr>
       empty_dataset_world
     = Inr (\<lparr>results = no_documents_result,
             prompt_context = ''No documents found in the selected dataset. Please upload documents or select a different dataset.'',
             sources = [[(''source'', JStr ''System''), (''page'', JInt 0),
                         (''snippet'', JStr ''No documents found in the selected dataset. Please upload documents or select a different dataset.'')]],
             pipeline_calls = []\<rparr>, empty_dataset_world)"
proof (intro conjI)
  show "collection_count ''empty'' empty_dataset_world = 0"
    by (simp add: collection_count_def empty_dataset_world_def)
  show "case query_dataset empty_dataset_world ''empty'' ''sanctions committee'' 5 of
      Inl e \<Rightarrow>
        add_message query_dataset (Some (Some ''empty'')) sanctions_question empty_dataset_world = Inl e
    | Inr res \<Rightarrow>
        (case add_message query_dataset (Some (Some ''empty'')) sanctions_question empty_dataset_world of
           Inr (Some r) \<Rightarrow>
             results r = res \<and> pipeline_calls r = [(''empty'', ''sanctions committee'', 5)]
         | Inr None \<Rightarrow> False
         | Inl e \<Rightarrow> res_documents res \<noteq> [] \<and> res_metadatas res = [])"
    by (auto simp: add_message_def sanctions_question_def first_item_def Let_def
        split: sum.splits option.splits list.splits)
  show "chat query_dataset \<lparr>message = Some ''sanctions committee'', dataset = Some ''empty''\<rparr>
       empty_dataset_world
     = Inr (\<lparr>results = no_documents_result,
             prompt_context = ''No documents found in the selected dataset. Please upload documents or select a different dataset.'',
             sources = [[(''source'', JStr ''System''), (''page'', JInt 0),
                         (''snippet'', JStr ''No documents found in the selected dataset. Please upload documents or select a different dataset.'')]],
             pipeline_calls = []\<rparr>, empty_dataset_world)"
    by (simp add: chat_def empty_dataset_world_def get_or_create_collection_def
        collection_count_def no_documents_result_def first_item_def page_of_def
        dict_get_default_def)
qed

text \<open>
  C2. On a dataset of two chunks \<open>add_message\<close> asks the pipeline for five results,
  more than the collection holds, whereas \<open>chat\<close> asks for two.
\<close>

theorem add_message_requests_five_of_two:
  "collection_count ''laws'' two_chunk_world = 2 \<and>
   (case query_dataset two_chunk_world ''laws'' ''sanctions committee'' 5 of
      Inl e \<Rightarrow>
        add_message query_dataset (Some (Some ''laws'')) sanctions_question two_chunk_world = Inl e
    | Inr res \<Rightarrow>
        (case add_message query_dataset (Some (Some ''laws'')) sanctions_question two_chunk_world of
           Inr (Some r) \<Rightarrow>
             results r = res \<and> pipeline_calls r = [(''laws'', ''sanctions committee'', 5)]
         | Inr None \<Rightarrow> False
         | Inl e \<Rightarrow> res_documents res \<noteq> [] \<and> res_metadatas res = [])) \<and>
   (case query_dataset two_chunk_world ''laws'' ''sanctions committee'' 2 of
      Inl e \<Rightarrow>
        chat query_dataset \<lparr>message = Some ''sanctions committee'', dataset = Some ''laws''\<rparr>
          two_chunk_world = Inl e
    | Inr res \<Rightarrow>
        (case chat query_dataset \<lparr>message = Some ''sanctions committee'', dataset = Some ''laws''\<rparr>
                two_chunk_world of
           Inr rw \<Rightarrow>
             results (fst rw) = res \<and> pipeline_calls (fst rw) = [(''laws'', ''sanctions committee'', 2)]
         | Inl e \<Rightarrow> res_documents res = [] \<or> res_metadatas res = []))"
proof (intro conjI)
  show "collection_count ''laws'' two_chunk_world = 2"
    by (simp add: collection_count_def two_chunk_world_def)
  show "case query_dataset two_chunk_world ''laws'' ''sanctions committee'' 5 of
      Inl e \<Rightarrow>
        add_message query_dataset (Some (Some ''laws'')) sanctions_question two_chunk_world = Inl e
    | Inr res \<Rightarrow>
        (case add_message query_dataset (Some (Some ''laws'')) sanctions_question two_chunk_world of
           Inr (Some r) \<Rightarrow>
             results r = res \<and> pipeline_calls r = [(''laws'', ''sanctions committee'', 5)]
         | Inr None \<Rightarrow> False
         | Inl e \<Rightarrow> res_documents res \<noteq> [] \<and> res_metadatas res = [])"
    by (auto simp: add_message_def sanctions_question_def first_item_def Let_def
        split: sum.splits option.splits list.splits)
  have w1: "get_or_create_collection ''laws'' two_chunk_world = two_chunk_world"
    by (simp add: get_or_create_collection_def two_chunk_world_def)
  have c: "collection_count ''laws'' two_chunk_world = 2"
    by (simp add: collection_count_def two_chunk_world_def)
  show "case query_dataset two_chunk_world ''laws'' ''sanctions committee'' 2 of
      Inl e \<Rightarrow>
        chat query_dataset \<lparr>message = Some ''sanctions committee'', dataset = Some ''laws''\<rparr>
          two_chunk_world = Inl e
    | Inr res \<Rightarrow>
        (case chat query_dataset \<lparr>message = Some ''sanctions committee'', dataset = Some ''laws''\<rparr>
                two_chunk_world of
           Inr rw \<Rightarrow>
             results (fst rw) = res \<and> pipeline_calls (fst rw) = [(''laws'', ''sanctions committee'', 2)]
         | Inl e \<Rightarrow> res_documents res = [] \<or> res_metadatas res = [])"
    by (auto simp: chat_def w1 c first_item_def Let_def numeral_2_eq_2 split: sum.splits list.splits)
qed

section \<open>Batched insertion\<close>


lemma batch_calls_step:
  "i < length (documents p) \<Longrightarrow>
   batch_calls i p =
     (take 100 (drop i (documents p)), take 100 (drop i (metadatas p)), take 100 (drop i (ids p)))
       # batch_calls (i + 100) p"
  by (subst batch_calls.simps) simp

lemma batch_calls_stop: "\<not> i < length (documents p) \<Longrightarrow> batch_calls i p = []"
  by (subst batch_calls.simps) simp





lemma batch_chunks_split:
  "batch_chunks (take n a, take n b, take n c) @ batch_chunks (drop n a, drop n b, drop n c)
     = batch_chunks (a, b, c)"
proof -
  have t: "zip (take n a) (zip (take n b) (take n c)) = take n (zip a (zip b c))"
    by (simp add: take_zip)
  have d: "zip (drop n a) (zip (drop n b) (drop n c)) = drop n (zip a (zip b c))"
    by (simp add: drop_zip)
  show ?thesis
    unfolding batch_chunks_def prod.case t d
    by (simp only: take_map[symmetric] drop_map[symmetric] append_take_drop_id)
qed

lemma batch_chunks_concat:
  "aligned p \<Longrightarrow>
   concat (map batch_chunks (batch_calls i p))
     = batch_chunks (drop i (documents p), drop i (metadatas p), drop i (ids p))"
proof (induction i p rule: batch_calls.induct)
  case (1 i p)
  show ?case
  proof (cases "i < length (documents p)")
    case True
    have e: "drop (i + 100) (documents p) = drop 100 (drop i (documents p))"
      "drop (i + 100) (metadatas p) = drop 100 (drop i (metadatas p))"
      "drop (i + 100) (ids p) = drop 100 (drop i (ids p))"
      by (simp_all add: add.commute)
    from True 1 have
      "concat (map batch_chunks (batch_calls (i + 100) p))
        = batch_chunks (drop (i + 100) (documents p), drop (i + 100) (metadatas p),
                        drop (i + 100) (ids p))"
      by blast
    then show ?thesis
      by (simp only: batch_calls_step[OF True] list.map concat.simps e batch_chunks_split)
  next
    case False
    then show ?thesis by (simp add: batch_calls_stop batch_chunks_def)
  qed
qed


lemma add_batches_append:
  "aligned p \<Longrightarrow> add_batches p cs = cs @ batch_chunks (documents p, metadatas p, ids p)"
proof -
  assume a: "aligned p"
  have f: "\<And>bs acc. foldl (\<lambda>c b. c @ batch_chunks b) acc bs = acc @ concat (map batch_chunks bs)"
  proof -
    fix bs :: "batch list" and acc
    show "foldl (\<lambda>c b. c @ batch_chunks b) acc bs = acc @ concat (map batch_chunks bs)"
      by (induction bs arbitrary: acc) simp_all
  qed
  show ?thesis
    unfolding add_batches_def f using batch_chunks_concat[OF a, of 0] by simp
qed

lemma aligned_no_pending: "aligned no_pending"
  by (simp add: aligned_def no_pending_def)

lemma all_long_no_pending: "all_long no_pending"
  by (simp add: all_long_def no_pending_def)

lemma aligned_append_rows: "aligned p \<Longrightarrow> aligned (append_rows rows p)"
  by (simp add: aligned_def append_rows_def)

lemma all_long_append_rows:
  "all_long p \<Longrightarrow> list_all (\<lambda>r. length (fst r) > 50) rows \<Longrightarrow> all_long (append_rows rows p)"
  by (auto simp: all_long_def append_rows_def list_all_iff)

lemma long_rows:
  "list_all (\<lambda>r. length (fst r) > 50)
     [(text, g j text). (j, text) \<leftarrow> xs, c text \<and> length text > 50]"
  by (induction xs) (auto simp: list_all_iff)

lemma long_rows_plain:
  "list_all (\<lambda>r. length (fst r) > 50) [(text, g j text). (j, text) \<leftarrow> xs, length text > 50]"
  by (induction xs) (auto simp: list_all_iff)

lemma aligned_process_file: "aligned p \<Longrightarrow> aligned (process_file tess i f p)"
  by (simp add: process_file_def Let_def aligned_append_rows split: sum.splits)

lemma all_long_process_file: "all_long p \<Longrightarrow> all_long (process_file tess i f p)"
  by (auto simp: process_file_def Let_def split: sum.splits
      intro!: all_long_append_rows long_rows long_rows_plain)

lemma process_files_invariant:
  "aligned p \<Longrightarrow> all_long p \<Longrightarrow>
   aligned (process_files tess i fs p) \<and> all_long (process_files tess i fs p)"
  by (induction fs arbitrary: i p) (simp_all add: aligned_process_file all_long_process_file)

lemma sample_text_long: "length sample_text > 50"
  by (simp add: sample_text_def)

lemma process_documents_pending_invariant:
  "aligned (process_documents_pending tess listing) \<and>
   all_long (process_documents_pending tess listing)"
proof -
  let ?p0 = "append_rows [(sample_text, [(''source'', JStr ''sample_document.txt''), (''page'', JInt 1)],
                              ''sample_document_0_1'')] no_pending"
  have "aligned ?p0" by (simp add: aligned_append_rows aligned_no_pending)
  moreover have "all_long ?p0"
    by (rule all_long_append_rows) (simp_all add: all_long_no_pending sample_text_long)
  ultimately show ?thesis
    unfolding process_documents_pending_def Let_def
    by (simp add: process_files_invariant aligned_no_pending all_long_no_pending)
qed

lemma aligned_upload_file_rows: "aligned p \<Longrightarrow> aligned (upload_file_rows tess i fname f p)"
  by (simp add: upload_file_rows_def aligned_append_rows split: sum.splits)

lemma all_long_upload_file_rows: "all_long p \<Longrightarrow> all_long (upload_file_rows tess i fname f p)"
  by (auto simp: upload_file_rows_def split: sum.splits
      intro!: all_long_append_rows long_rows long_rows_plain)

lemma upload_files_invariant:
  "aligned p \<Longrightarrow> all_long p \<Longrightarrow> upload_files sf tess i fs p = Inr p' \<Longrightarrow>
   aligned p' \<and> all_long p'"
proof (induction fs arbitrary: i p)
  case Nil
  then show ?case by simp
next
  case (Cons f fs)
  show ?case
  proof (cases "filename f \<noteq> [] \<and> allowed_file (filename f)")
    case True
    with Cons.prems(3) have "save_error f = None"
      by (auto split: option.splits)
    with True Cons.prems(3) have
      "upload_files sf tess (Suc i) fs (upload_file_rows tess i (sf (filename f)) f p) = Inr p'"
      by simp
    with Cons.IH Cons.prems(1,2) show ?thesis
      by (blast intro: aligned_upload_file_rows all_long_upload_file_rows)
  next
    case False
    with Cons.prems(3) have "upload_files sf tess (Suc i) fs p = Inr p'" by auto
    with Cons.IH Cons.prems(1,2) show ?thesis by blast
  qed
qed

lemma append_files_invariant:
  "aligned p \<Longrightarrow> all_long p \<Longrightarrow>
   aligned (append_files tess i saved p) \<and> all_long (append_files tess i saved p)"
  by (induction saved arbitrary: i p)
     (simp_all add: aligned_upload_file_rows all_long_upload_file_rows)



text \<open>Two hundred and fifty pending chunks go out as batches of 100, 100 and 50.\<close>

lemma batch_calls_of_250:
  "map (\<lambda>b. length (fst b))
     (batch_calls 0 \<lparr>documents = replicate 250 d, metadatas = replicate 250 m, ids = replicate 250 i\<rparr>)
   = [100, 100, 50]"
  by (simp add: batch_calls.simps)

section \<open>Short chunks are never stored\<close>

lemma olca_iff:
  "only_long_chunks_added w w' \<longleftrightarrow>
     (\<forall>n cs' c. (n, cs') \<in> set (collections w') \<longrightarrow> c \<in> set cs' \<longrightarrow>
        length (document c) > 50 \<or> (\<exists>cs. (n, cs) \<in> set (collections w) \<and> c \<in> set cs))"
  unfolding only_long_chunks_added_def list_all_iff by fastforce

lemma olca_refl: "only_long_chunks_added w w"
  unfolding olca_iff by blast

lemma olca_trans:
  "only_long_chunks_added w w1 \<Longrightarrow> only_long_chunks_added w1 w2 \<Longrightarrow> only_long_chunks_added w w2"
  unfolding olca_iff by meson

lemma olca_same_collections:
  "collections w2 = collections w1 \<Longrightarrow> only_long_chunks_added w w1 \<Longrightarrow> only_long_chunks_added w w2"
  unfolding olca_iff by simp

lemma olca_create: "only_long_chunks_added w (create_collection n w)"
  unfolding olca_iff by (auto simp: create_collection_def)

lemma olca_get_or_create: "only_long_chunks_added w (get_or_create_collection n w)"
  by (simp add: get_or_create_collection_def olca_create olca_refl split: option.splits)

lemma set_update_subset: "set (AList.update k v al) \<subseteq> insert (k, v) (set al)"
  by (induction al) auto

lemma batch_chunks_document: "c \<in> set (batch_chunks (a, b, d)) \<Longrightarrow> document c \<in> set a"
  by (auto simp: batch_chunks_def dest: set_zip_leftD)

lemma olca_collection_add:
  assumes a: "aligned p" and l: "all_long p"
  shows "only_long_chunks_added w (collection_add n p w)"
proof (cases "map_of (collections w) n")
  case None
  then show ?thesis by (simp add: collection_add_def olca_refl)
next
  case (Some cs)
  then have in_w: "(n, cs) \<in> set (collections w)" by (rule map_of_SomeD)
  have new: "collections (collection_add n p w)
      = AList.update n (cs @ batch_chunks (documents p, metadatas p, ids p)) (collections w)"
    using Some by (simp add: collection_add_def add_batches_append[OF a])
  show ?thesis
    unfolding olca_iff
  proof (intro allI impI)
    fix m cs' c
    assume m: "(m, cs') \<in> set (collections (collection_add n p w))" and c: "c \<in> set cs'"
    from m new set_update_subset[of n _ "collections w"]
    have "(m, cs') \<in> set (collections w) \<or>
          (m = n \<and> cs' = cs @ batch_chunks (documents p, metadatas p, ids p))"
      by auto
    then show "length (document c) > 50 \<or> (\<exists>cs. (m, cs) \<in> set (collections w) \<and> c \<in> set cs)"
    proof
      assume "(m, cs') \<in> set (collections w)"
      with c show ?thesis by blast
    next
      assume e: "m = n \<and> cs' = cs @ batch_chunks (documents p, metadatas p, ids p)"
      with c have "c \<in> set cs \<or> c \<in> set (batch_chunks (documents p, metadatas p, ids p))" by simp
      then show ?thesis
      proof
        assume "c \<in> set cs"
        with e in_w show ?thesis by blast
      next
        assume "c \<in> set (batch_chunks (documents p, metadatas p, ids p))"
        then have "document c \<in> set (documents p)" by (rule batch_chunks_document)
        with l show ?thesis by (simp add: all_long_def list_all_iff)
      qed
    qed
  qed
qed

lemma olca_process_documents:
  "only_long_chunks_added w (snd (process_documents DOCUMENTS_DIR tess requested_name dataset_description documents_dir w))"
proof -
  let ?n = "case requested_name of None \<Rightarrow> ''EU-Sanctions'' | Some n \<Rightarrow> n"
  let ?w1 = "get_or_create_collection ?n w"
  have 1: "only_long_chunks_added w ?w1" by (rule olca_get_or_create)
  show ?thesis
  proof (cases documents_dir)
    case None
    with 1 show ?thesis by (simp add: process_documents_def Let_def)
  next
    case (Some listing)
    let ?p = "process_documents_pending tess listing"
    have "only_long_chunks_added ?w1 (collection_add ?n ?p ?w1)"
      using process_documents_pending_invariant by (blast intro: olca_collection_add)
    with 1 have 2: "only_long_chunks_added w (collection_add ?n ?p ?w1)" by (rule olca_trans)
    have "collections (snd (process_documents DOCUMENTS_DIR tess requested_name dataset_description documents_dir w))
        = collections (collection_add ?n ?p ?w1)"
      using Some by (simp add: process_documents_def Let_def)
    then show ?thesis using 2 by (rule olca_same_collections)
  qed
qed

lemma olca_upload_documents:
  "only_long_chunks_added w (snd (upload_documents secure_filename tess now current_time req w))"
proof (cases "uploaded req")
  case None
  then show ?thesis by (simp add: upload_documents_def olca_refl)
next
  case (Some fs)
  show ?thesis
  proof (cases "sanitized_name (form_get (form req) ''dataset_name'' ''New Dataset'') now")
    case (Inl e)
    with Some show ?thesis by (simp add: upload_documents_def olca_refl)
  next
    case (Inr n)
    show ?thesis
    proof (cases "get_collection n w")
      case (Inr cs)
      with Some \<open>sanitized_name _ _ = Inr n\<close> show ?thesis
        by (simp add: upload_documents_def olca_refl)
    next
      case (Inl e)
      let ?w1 = "create_collection n w"
      have 1: "only_long_chunks_added w ?w1" by (rule olca_create)
      show ?thesis
      proof (cases "upload_files secure_filename tess 0 fs no_pending")
        case f: (Inl e')
        with Some \<open>sanitized_name _ _ = Inr n\<close> Inl 1 show ?thesis
          by (simp add: upload_documents_def Let_def)
      next
        case f: (Inr p)
        from upload_files_invariant[OF aligned_no_pending all_long_no_pending f]
        have "only_long_chunks_added ?w1 (collection_add n p ?w1)"
          by (blast intro: olca_collection_add)
        with 1 have 2: "only_long_chunks_added w (collection_add n p ?w1)" by (rule olca_trans)
        have "collections (snd (upload_documents secure_filename tess now current_time req w))
            = collections (collection_add n p ?w1)"
          using Some \<open>sanitized_name _ _ = Inr n\<close> Inl f
          by (simp add: upload_documents_def Let_def)
        then show ?thesis using 2 by (rule olca_same_collections)
      qed
    qed
  qed
qed

lemma olca_upload_documents_to_dataset:
  "only_long_chunks_added w
     (snd (upload_documents_to_dataset secure_filename tess now_iso dataset_name req w))"
proof (cases "uploaded req")
  case None
  then show ?thesis by (simp add: upload_documents_to_dataset_def olca_refl)
next
  case (Some fs)
  show ?thesis
  proof (cases "save_uploads secure_filename fs")
    case (Inl e)
    with Some show ?thesis by (simp add: upload_documents_to_dataset_def olca_refl)
  next
    case (Inr saved)
    show ?thesis
    proof (cases "saved = []")
      case True
      with Some Inr show ?thesis by (simp add: upload_documents_to_dataset_def olca_refl)
    next
      case False
      let ?w1 = "get_or_create_collection dataset_name w"
      let ?p = "append_files tess 0 saved no_pending"
      have 1: "only_long_chunks_added w ?w1" by (rule olca_get_or_create)
      have "only_long_chunks_added ?w1 (collection_add dataset_name ?p ?w1)"
        using append_files_invariant[OF aligned_no_pending all_long_no_pending]
        by (blast intro: olca_collection_add)
      with 1 have 2: "only_long_chunks_added w (collection_add dataset_name ?p ?w1)"
        by (rule olca_trans)
      have "collections (snd (upload_documents_to_dataset secure_filename tess now_iso dataset_name req w))
          = collections (collection_add dataset_name ?p ?w1)"
        using Some Inr False
        by (simp add: upload_documents_to_dataset_def Let_def
            split: option.splits sum.splits)
      then show ?thesis using 2 by (rule olca_same_collections)
    qed
  qed
qed

text \<open>
  C5. Whatever the request, after each of the three ingestion handlers every chunk of
  the store either was already in a collection of that name or has a text of more than
  fifty characters: segments and paragraphs of at most fifty characters are dropped
  before \<open>collection.add\<close> and are never stored.
\<close>

theorem short_chunks_never_stored:
  "only_long_chunks_added w
     (snd (process_documents DOCUMENTS_DIR tess requested_name dataset_description documents_dir w)) \<and>
   only_long_chunks_added w
     (snd (upload_documents secure_filename tess now current_time req w)) \<and>
   only_long_chunks_added w
     (snd (upload_documents_to_dataset secure_filename tess now_iso dataset_name req w))"
  using olca_process_documents olca_upload_documents olca_upload_documents_to_dataset
  by blast

lemma mixed_chunks:
  "text_chunks mixed_text
   = [''Short note.'', ''Council Regulation 269/2014 lists the persons subject to an asset freeze.'']"
  by (simp add: mixed_text_def text_chunks_def split_paragraphs_plain strip_def isspace_def)

lemma mixed_pending:
  "upload_files (\<lambda>n. n) True 0 (the (uploaded mixed_request)) no_pending
     = Inr \<lparr>documents = [''Council Regulation 269/2014 lists the persons subject to an asset freeze.''],
            metadatas = [[(''source'', JStr ''b.txt''), (''page'', JInt 1)]],
            ids = [''b.txt_0_1'']\<rparr>"
proof -
  have a1: "allowed_file ''b.txt''" by (simp add: allowed_file_def lower_char_def)
  have e1: "\<not> endswith ''b.txt'' ''.pdf''" by (simp add: endswith_def)
  have e2: "endswith ''b.txt'' ''.txt''" by (simp add: endswith_def)
  have k: "chunk_key ''b.txt'' 0 (Suc 0) = ''b.txt_0_1''"
    by (simp add: chunk_key_def str_nat.simps digit_char_def)
  show ?thesis
    unfolding mixed_request_def
    by (simp add: a1 upload_file_rows_def e1 e2 mixed_chunks append_rows_def no_pending_def k)
qed

theorem short_chunks_never_stored_witness:
  "only_long_chunks_added blank_world
     (snd (upload_documents (\<lambda>n. n) True 1700000000 ''2025-01-01T00:00:00'' mixed_request blank_world)) \<and>
   text_chunks mixed_text
     = [''Short note.'', ''Council Regulation 269/2014 lists the persons subject to an asset freeze.''] \<and>
   collections (snd (upload_documents (\<lambda>n. n) True 1700000000 ''2025-01-01T00:00:00'' mixed_request blank_world))
     = [(''laws'',
          [\<lparr>chunk_id = ''b.txt_0_1'',
            document = ''Council Regulation 269/2014 lists the persons subject to an asset freeze.'',
            metadata = [(''source'', JStr ''b.txt''), (''page'', JInt 1)]\<rparr>])]"
proof -
  have s: "sanitized_name ''laws'' 1700000000 = Inr ''laws''"
    by (simp add: sanitized_name_def strip_chars_def isalnum_def)
  have u: "uploaded mixed_request = Some (the (uploaded mixed_request))"
    by (simp add: mixed_request_def)
  have f: "form mixed_request = [(''dataset_name'', ''laws'')]"
    by (simp add: mixed_request_def)
  have c: "collections (snd (upload_documents (\<lambda>n. n) True 1700000000 ''2025-01-01T00:00:00'' mixed_request blank_world))
     = [(''laws'',
          [\<lparr>chunk_id = ''b.txt_0_1'',
            document = ''Council Regulation 269/2014 lists the persons subject to an asset freeze.'',
            metadata = [(''source'', JStr ''b.txt''), (''page'', JInt 1)]\<rparr>])]"
    unfolding upload_documents_def
    by (subst u)
       (simp add: f s mixed_pending form_get_def get_collection_def create_collection_def
         blank_world_def collection_add_def add_batches_def batch_calls.simps batch_chunks_def
         load_dataset_metadata_def save_dataset_metadata_def)
  from short_chunks_never_stored[where w = blank_world and secure_filename = "\<lambda>n. n"
      and tess = True and now = 1700000000 and current_time = "''2025-01-01T00:00:00''"
      and req = mixed_request] c mixed_chunks
  show ?thesis by simp
qed

end
